theory Spec2Isabelle
  imports Main "HOL-Library.Multiset" "HOL-Library.Char_ord" "HOL-Library.List_Lexorder"
begin

section \<open>Schema (shared/schema.ts)\<close>

text \<open>
  The PostgreSQL enums of the schema. Each \<open>pgEnum\<close> is a datatype; the label function
  gives the string the column stores, and the \<open>_of_label\<close> function is the cast the
  database performs when a string is compared with or written to an enum column
  (\<open>None\<close>: the string is not a label of the enum and the statement fails).
\<close>

datatype userRole = Student | Teacher | Parent | Principal | Proprietor

datatype termEnum = First | Second | Third

datatype gradeStatus = Draft | Published

datatype feeStatus = Pending | Partial | Paid

datatype attendanceStatus = Present | Absent | Late

fun userRole_label :: "userRole \<Rightarrow> string" where
  "userRole_label Student = ''student''"
| "userRole_label Teacher = ''teacher''"
| "userRole_label Parent = ''parent''"
| "userRole_label Principal = ''principal''"
| "userRole_label Proprietor = ''proprietor''"

definition userRole_of_label :: "string \<Rightarrow> userRole option" where
  "userRole_of_label s =
     (if s = ''student'' then Some Student
      else if s = ''teacher'' then Some Teacher
      else if s = ''parent'' then Some Parent
      else if s = ''principal'' then Some Principal
      else if s = ''proprietor'' then Some Proprietor
      else None)"

fun termEnum_label :: "termEnum \<Rightarrow> string" where
  "termEnum_label First = ''first''"
| "termEnum_label Second = ''second''"
| "termEnum_label Third = ''third''"

definition termEnum_of_label :: "string \<Rightarrow> termEnum option" where
  "termEnum_of_label s =
     (if s = ''first'' then Some First
      else if s = ''second'' then Some Second
      else if s = ''third'' then Some Third
      else None)"

fun attendanceStatus_label :: "attendanceStatus \<Rightarrow> string" where
  "attendanceStatus_label Present = ''present''"
| "attendanceStatus_label Absent = ''absent''"
| "attendanceStatus_label Late = ''late''"

definition attendanceStatus_of_label :: "string \<Rightarrow> attendanceStatus option" where
  "attendanceStatus_of_label s =
     (if s = ''present'' then Some Present
      else if s = ''absent'' then Some Absent
      else if s = ''late'' then Some Late
      else None)"

text \<open>
  Rows. A field is named \<open>table_column\<close> after the Drizzle column \<open>table.column\<close>.
  A column without \<open>notNull()\<close> is an \<open>option\<close> (\<open>None\<close> is SQL NULL). Identifiers are
  \<open>varchar\<close> strings, timestamps are integers (milliseconds), and a \<open>decimal(p, 2)\<close>
  column is an integer counting hundredths, so that 88.50 is 8850.
  Tables that only the dashboard reads carry the columns its queries touch.
\<close>

type_synonym ident = string
type_synonym timestamp = int
type_synonym decimal2 = int

record user =
  users_id :: ident
  users_email :: string
  users_role :: userRole

record school =
  schools_id :: ident
  schools_name :: string
  schools_proprietorId :: "ident option"
  schools_principalId :: "ident option"

record academicSession =
  academicSessions_id :: ident
  academicSessions_name :: string
  academicSessions_schoolId :: "ident option"
  academicSessions_isActive :: "bool option"

record class_row =
  classes_id :: ident
  classes_name :: string
  classes_schoolId :: "ident option"

record subject =
  subjects_id :: ident
  subjects_name :: string
  subjects_schoolId :: "ident option"

record student =
  students_id :: ident
  students_userId :: "ident option"
  students_studentId :: string
  students_classId :: "ident option"
  students_schoolId :: "ident option"
  students_parentId :: "ident option"

record teacher =
  teachers_id :: ident
  teachers_userId :: "ident option"
  teachers_teacherId :: string
  teachers_schoolId :: "ident option"

record grade =
  grades_id :: ident
  grades_studentId :: "ident option"
  grades_subjectId :: "ident option"
  grades_teacherId :: "ident option"
  grades_academicSessionId :: "ident option"
  grades_term :: termEnum
  grades_assessmentType :: string
  grades_score :: "decimal2 option"
  grades_maxScore :: "decimal2 option"
  grades_status :: "gradeStatus option"
  grades_gradedAt :: "timestamp option"
  grades_createdAt :: "timestamp option"

record attendance_row =
  attendance_id :: ident
  attendance_studentId :: "ident option"
  attendance_classId :: "ident option"
  attendance_date :: timestamp
  attendance_status :: attendanceStatus
  attendance_remarks :: "string option"
  attendance_recordedBy :: "ident option"
  attendance_createdAt :: "timestamp option"

record assignment =
  assignments_id :: ident
  assignments_title :: string
  assignments_description :: "string option"
  assignments_subjectId :: "ident option"
  assignments_classId :: "ident option"
  assignments_teacherId :: "ident option"
  assignments_dueDate :: "timestamp option"
  assignments_maxScore :: "decimal2 option"
  assignments_createdAt :: "timestamp option"

record message =
  messages_id :: ident
  messages_senderId :: "ident option"
  messages_recipientId :: "ident option"
  messages_subject :: "string option"
  messages_content :: string
  messages_isRead :: "bool option"
  messages_createdAt :: "timestamp option"

record feePayment =
  feePayments_id :: ident
  feePayments_studentId :: "ident option"
  feePayments_feeStructureId :: "ident option"
  feePayments_amountPaid :: decimal2
  feePayments_status :: "feeStatus option"
  feePayments_createdAt :: "timestamp option"

record announcement =
  announcements_id :: ident
  announcements_title :: string
  announcements_content :: string
  announcements_authorId :: "ident option"
  announcements_schoolId :: "ident option"
  announcements_targetRole :: "userRole option"
  announcements_priority :: "string option"
  announcements_isActive :: "bool option"
  announcements_createdAt :: "timestamp option"

record reportCard =
  reportCards_id :: ident
  reportCards_studentId :: "ident option"
  reportCards_academicSessionId :: "ident option"
  reportCards_term :: termEnum
  reportCards_totalScore :: "decimal2 option"
  reportCards_totalPossible :: "decimal2 option"
  reportCards_average :: "decimal2 option"
  reportCards_position :: "int option"
  reportCards_classSize :: "int option"
  reportCards_teacherComment :: "string option"
  reportCards_principalComment :: "string option"
  reportCards_nextTermBegins :: "timestamp option"
  reportCards_isPublished :: "bool option"
  reportCards_generatedAt :: "timestamp option"

text \<open>The store: one list of rows per table, in the order the rows were inserted.\<close>

record db =
  users :: "user list"
  schools :: "school list"
  academicSessions :: "academicSession list"
  classes :: "class_row list"
  subjects :: "subject list"
  students :: "student list"
  teachers :: "teacher list"
  grades :: "grade list"
  attendance :: "attendance_row list"
  assignments :: "assignment list"
  messages :: "message list"
  feePayments :: "feePayment list"
  announcements :: "announcement list"
  reportCards :: "reportCard list"

section \<open>Query building blocks (drizzle-orm)\<close>

text \<open>
  \<open>eq(column, value)\<close> on a nullable column is true only for a non-NULL column holding
  the value; \<open>eq(column, column)\<close> is true only when both are non-NULL and equal.
\<close>

definition eq_val :: "'a option \<Rightarrow> 'a \<Rightarrow> bool" where
  "eq_val c v = (c = Some v)"

definition eq_col :: "'a option \<Rightarrow> 'a option \<Rightarrow> bool" where
  "eq_col c d = (case c of None \<Rightarrow> False | Some v \<Rightarrow> d = Some v)"

text \<open>
  \<open>const [x] = await db.select()...\<close> binds the first row of the result, or
  \<open>undefined\<close> when there is none.
\<close>

definition first_row :: "'a list \<Rightarrow> 'a option" where
  "first_row rows = (case rows of [] \<Rightarrow> None | x # _ \<Rightarrow> Some x)"

text \<open>\<open>a.innerJoin(b, on)\<close>: the pairs of rows that satisfy the join condition.\<close>

definition innerJoin :: "'a list \<Rightarrow> 'b list \<Rightarrow> ('a \<Rightarrow> 'b \<Rightarrow> bool) \<Rightarrow> ('a \<times> 'b) list" where
  "innerJoin as bs on = concat (map (\<lambda>a. map (Pair a) (filter (on a) bs)) as)"

text \<open>
  \<open>orderBy\<close>: an insertion sort under the comparison of the sort key. PostgreSQL sorts
  NULL as larger than every value: \<open>desc\<close> puts NULLs first, \<open>asc\<close> puts them last.
\<close>

fun insert_by :: "('a \<Rightarrow> 'a \<Rightarrow> bool) \<Rightarrow> 'a \<Rightarrow> 'a list \<Rightarrow> 'a list" where
  "insert_by le x [] = [x]"
| "insert_by le x (y # ys) = (if le x y then x # y # ys else y # insert_by le x ys)"

definition orderBy :: "('a \<Rightarrow> 'a \<Rightarrow> bool) \<Rightarrow> 'a list \<Rightarrow> 'a list" where
  "orderBy le rows = foldr (insert_by le) rows []"

definition desc_null :: "('k::linorder) option \<Rightarrow> 'k option \<Rightarrow> bool" where
  "desc_null a b = (case a of None \<Rightarrow> True | Some x \<Rightarrow> (case b of None \<Rightarrow> False | Some y \<Rightarrow> y \<le> x))"

definition desc :: "('a \<Rightarrow> ('k::linorder) option) \<Rightarrow> 'a \<Rightarrow> 'a \<Rightarrow> bool" where
  "desc col r s = desc_null (col r) (col s)"

definition asc :: "('a \<Rightarrow> 'k::linorder) \<Rightarrow> 'a \<Rightarrow> 'a \<Rightarrow> bool" where
  "asc col r s = (col r \<le> col s)"

section \<open>DatabaseStorage (server/storage.ts)\<close>

definition getUser :: "db \<Rightarrow> ident \<Rightarrow> user option" where
  "getUser d uid = first_row (filter (\<lambda>u. users_id u = uid) (users d))"

definition getStudentByUserId :: "db \<Rightarrow> ident \<Rightarrow> student option" where
  "getStudentByUserId d userId = first_row (filter (\<lambda>s. eq_val (students_userId s) userId) (students d))"

definition getTeacherByUserId :: "db \<Rightarrow> ident \<Rightarrow> teacher option" where
  "getTeacherByUserId d userId = first_row (filter (\<lambda>t. eq_val (teachers_userId t) userId) (teachers d))"

text \<open>
  \<open>getSchoolByUser\<close>: four queries in a row, each tried only when the one before it
  returned no row.
\<close>

definition getSchoolByUser :: "db \<Rightarrow> ident \<Rightarrow> school option" where
  "getSchoolByUser d userId =
     (case first_row (filter (\<lambda>s. eq_val (schools_proprietorId s) userId) (schools d)) of
        Some school \<Rightarrow> Some school
      | None \<Rightarrow>
     (case first_row (filter (\<lambda>s. eq_val (schools_principalId s) userId) (schools d)) of
        Some principalSchool \<Rightarrow> Some principalSchool
      | None \<Rightarrow>
     (case first_row (filter (\<lambda>(t, s). eq_val (teachers_userId t) userId)
              (innerJoin (teachers d) (schools d) (\<lambda>t s. eq_val (teachers_schoolId t) (schools_id s)))) of
        Some (teacher, sch) \<Rightarrow> Some sch
      | None \<Rightarrow>
     (case first_row (filter (\<lambda>(st, s). eq_val (students_userId st) userId)
              (innerJoin (students d) (schools d) (\<lambda>st s. eq_val (students_schoolId st) (schools_id s)))) of
        Some (student, sch) \<Rightarrow> Some sch
      | None \<Rightarrow> None))))"

text \<open>
  What can make a storage call or a handler throw: the database rejects a statement
  (a string that is no label of the enum column, a number that does not fit the
  precision of a decimal column, a reference to a row that does not exist, a primary
  key already present), Drizzle refuses an update without values, the request body
  fails the zod schema, or the JavaScript itself fails (\<open>TypeError\<close>).
\<close>

datatype failure =
    InvalidEnumValue | NumericOverflow | UniqueViolation | ForeignKeyViolation
  | NoValuesToSet | ZodError | TypeError

text \<open>
  \<open>if (x)\<close> on an optional string argument takes the true branch only for a defined,
  non-empty string: \<open>undefined\<close> and \<open>""\<close> are both falsy.
\<close>

definition truthy :: "string option \<Rightarrow> string option" where
  "truthy x = (case x of None \<Rightarrow> None | Some s \<Rightarrow> if s = [] then None else Some s)"

definition getGradesByStudent :: "db \<Rightarrow> ident \<Rightarrow> string option \<Rightarrow> failure + grade list" where
  "getGradesByStudent d studentId term_arg =
     (case truthy term_arg of
        Some t \<Rightarrow>
          (case termEnum_of_label t of
             None \<Rightarrow> Inl InvalidEnumValue
           | Some tm \<Rightarrow>
               Inr (orderBy (desc grades_createdAt)
                     (filter (\<lambda>g. eq_val (grades_studentId g) studentId \<and> grades_term g = tm) (grades d))))
      | None \<Rightarrow>
          Inr (orderBy (desc grades_createdAt)
                (filter (\<lambda>g. eq_val (grades_studentId g) studentId) (grades d))))"

text \<open>Both branches of \<open>getAttendanceByStudent\<close> run the same query; the dates are not used.\<close>

definition getAttendanceByStudent ::
  "db \<Rightarrow> ident \<Rightarrow> timestamp option \<Rightarrow> timestamp option \<Rightarrow> attendance_row list" where
  "getAttendanceByStudent d studentId startDate endDate =
     (if startDate \<noteq> None \<and> endDate \<noteq> None
      then orderBy (desc (\<lambda>r. Some (attendance_date r)))
             (filter (\<lambda>r. eq_val (attendance_studentId r) studentId) (attendance d))
      else orderBy (desc (\<lambda>r. Some (attendance_date r)))
             (filter (\<lambda>r. eq_val (attendance_studentId r) studentId) (attendance d)))"

definition getAssignmentsByStudent :: "db \<Rightarrow> ident \<Rightarrow> assignment list" where
  "getAssignmentsByStudent d studentId =
     orderBy (desc assignments_dueDate)
       (map fst
         (filter (\<lambda>(a, s). eq_col (assignments_classId a) (students_classId s))
           (innerJoin (assignments d) (students d) (\<lambda>a s. students_id s = studentId))))"

definition getMessagesByUser :: "db \<Rightarrow> ident \<Rightarrow> message list" where
  "getMessagesByUser d userId =
     orderBy (desc messages_createdAt)
       (filter (\<lambda>m. eq_val (messages_recipientId m) userId) (messages d))"

definition getFeePaymentsByStudent :: "db \<Rightarrow> ident \<Rightarrow> feePayment list" where
  "getFeePaymentsByStudent d studentId =
     orderBy (desc feePayments_createdAt)
       (filter (\<lambda>p. eq_val (feePayments_studentId p) studentId) (feePayments d))"

definition getClassesBySchool :: "db \<Rightarrow> ident \<Rightarrow> class_row list" where
  "getClassesBySchool d schoolId =
     orderBy (asc classes_name) (filter (\<lambda>c. eq_val (classes_schoolId c) schoolId) (classes d))"

definition getSubjectsBySchool :: "db \<Rightarrow> ident \<Rightarrow> subject list" where
  "getSubjectsBySchool d schoolId =
     orderBy (asc subjects_name) (filter (\<lambda>c. eq_val (subjects_schoolId c) schoolId) (subjects d))"

definition getTeachersBySchool :: "db \<Rightarrow> ident \<Rightarrow> teacher list" where
  "getTeachersBySchool d schoolId =
     orderBy (asc teachers_teacherId) (filter (\<lambda>t. eq_val (teachers_schoolId t) schoolId) (teachers d))"

definition getAnnouncementsBySchool :: "db \<Rightarrow> ident \<Rightarrow> string option \<Rightarrow> failure + announcement list" where
  "getAnnouncementsBySchool d schoolId role_arg =
     (case truthy role_arg of
        Some r \<Rightarrow>
          (case userRole_of_label r of
             None \<Rightarrow> Inl InvalidEnumValue
           | Some role \<Rightarrow>
               Inr (orderBy (desc announcements_createdAt)
                     (filter (\<lambda>a. eq_val (announcements_schoolId a) schoolId
                                 \<and> eq_val (announcements_targetRole a) role
                                 \<and> eq_val (announcements_isActive a) True)
                       (announcements d))))
      | None \<Rightarrow>
          Inr (orderBy (desc announcements_createdAt)
                (filter (\<lambda>a. eq_val (announcements_schoolId a) schoolId
                            \<and> eq_val (announcements_isActive a) True)
                  (announcements d))))"


subsection \<open>Writes\<close>

text \<open>
  An insert takes the two values the database draws for the column defaults
  \<open>gen_random_uuid()\<close> and \<open>now()\<close>; they are inputs of the model. The database checks
  the primary key and then the declared references of the non-NULL columns.
\<close>

record generated =
  gen_id :: ident
  gen_now :: timestamp

definition references :: "ident option \<Rightarrow> ident list \<Rightarrow> bool" where
  "references c ids = (case c of None \<Rightarrow> True | Some v \<Rightarrow> v \<in> set ids)"

text \<open>
  A \<open>decimal(p, 2)\<close> column holds the numbers with fewer than \<open>p\<close> digits in all,
  counted here in hundredths; a number outside makes the statement fail.
\<close>

definition fits_decimal :: "nat \<Rightarrow> decimal2 option \<Rightarrow> bool" where
  "fits_decimal p v = (case v of None \<Rightarrow> True | Some x \<Rightarrow> \<bar>x\<bar> < 10 ^ p)"

text \<open>
  A value for a column that has a default is absent (\<open>None\<close>: the default is stored),
  an explicit \<open>null\<close> (\<open>Some None\<close>: NULL is stored) or a value.
\<close>

definition column_default :: "'a option option \<Rightarrow> 'a \<Rightarrow> 'a option" where
  "column_default v dflt = (case v of None \<Rightarrow> Some dflt | Some x \<Rightarrow> x)"

definition generateReportCard ::
  "db \<Rightarrow> generated \<Rightarrow> ident \<Rightarrow> string \<Rightarrow> ident \<Rightarrow> failure + (reportCard \<times> db)" where
  "generateReportCard d g studentId term_arg academicSessionId =
     (case termEnum_of_label term_arg of
        None \<Rightarrow> Inl InvalidEnumValue
      | Some tm \<Rightarrow>
          if gen_id g \<in> set (map reportCards_id (reportCards d)) then Inl UniqueViolation
          else if \<not> (references (Some studentId) (map students_id (students d))
                    \<and> references (Some academicSessionId) (map academicSessions_id (academicSessions d)))
          then Inl ForeignKeyViolation
          else
            let newReportCard = \<lparr>
                  reportCards_id = gen_id g,
                  reportCards_studentId = Some studentId,
                  reportCards_academicSessionId = Some academicSessionId,
                  reportCards_term = tm,
                  reportCards_totalScore = Some 0,
                  reportCards_totalPossible = Some 0,
                  reportCards_average = Some 0,
                  reportCards_position = Some 0,
                  reportCards_classSize = Some 0,
                  reportCards_teacherComment = None,
                  reportCards_principalComment = None,
                  reportCards_nextTermBegins = None,
                  reportCards_isPublished = Some False,
                  reportCards_generatedAt = Some (gen_now g) \<rparr>
            in Inr (newReportCard, d\<lparr>reportCards := reportCards d @ [newReportCard]\<rparr>))"

text \<open>
  \<open>InsertGrade\<close> and \<open>InsertAnnouncement\<close>: the values the zod insert schemas let
  through (\<open>id\<close> and \<open>createdAt\<close> are omitted by the schemas); a decimal is the number
  as the database rounds it to two places.
\<close>

record insertGrade =
  ig_studentId :: "ident option"
  ig_subjectId :: "ident option"
  ig_teacherId :: "ident option"
  ig_academicSessionId :: "ident option"
  ig_term :: termEnum
  ig_assessmentType :: string
  ig_score :: "decimal2 option"
  ig_maxScore :: "decimal2 option"
  ig_status :: "gradeStatus option option"
  ig_gradedAt :: "timestamp option"

definition createGrade :: "db \<Rightarrow> generated \<Rightarrow> insertGrade \<Rightarrow> failure + (grade \<times> db)" where
  "createGrade d g grade =
     (if \<not> (fits_decimal 5 (ig_score grade) \<and> fits_decimal 5 (ig_maxScore grade))
      then Inl NumericOverflow
      else if gen_id g \<in> set (map grades_id (grades d)) then Inl UniqueViolation
      else if \<not> (references (ig_studentId grade) (map students_id (students d))
                \<and> references (ig_subjectId grade) (map subjects_id (subjects d))
                \<and> references (ig_teacherId grade) (map teachers_id (teachers d))
                \<and> references (ig_academicSessionId grade) (map academicSessions_id (academicSessions d)))
      then Inl ForeignKeyViolation
      else
        let newGrade = \<lparr>
              grades_id = gen_id g,
              grades_studentId = ig_studentId grade,
              grades_subjectId = ig_subjectId grade,
              grades_teacherId = ig_teacherId grade,
              grades_academicSessionId = ig_academicSessionId grade,
              grades_term = ig_term grade,
              grades_assessmentType = ig_assessmentType grade,
              grades_score = ig_score grade,
              grades_maxScore = ig_maxScore grade,
              grades_status = column_default (ig_status grade) Draft,
              grades_gradedAt = ig_gradedAt grade,
              grades_createdAt = Some (gen_now g) \<rparr>
        in Inr (newGrade, d\<lparr>grades := grades d @ [newGrade]\<rparr>))"

record insertAnnouncement =
  ia_title :: string
  ia_content :: string
  ia_authorId :: "ident option"
  ia_schoolId :: "ident option"
  ia_targetRole :: "userRole option"
  ia_priority :: "string option option"
  ia_isActive :: "bool option option"

definition createAnnouncement ::
  "db \<Rightarrow> generated \<Rightarrow> insertAnnouncement \<Rightarrow> failure + (announcement \<times> db)" where
  "createAnnouncement d g announcement =
     (if gen_id g \<in> set (map announcements_id (announcements d)) then Inl UniqueViolation
      else if \<not> (references (ia_authorId announcement) (map users_id (users d))
                \<and> references (ia_schoolId announcement) (map schools_id (schools d)))
      then Inl ForeignKeyViolation
      else
        let newAnnouncement = \<lparr>
              announcements_id = gen_id g,
              announcements_title = ia_title announcement,
              announcements_content = ia_content announcement,
              announcements_authorId = ia_authorId announcement,
              announcements_schoolId = ia_schoolId announcement,
              announcements_targetRole = ia_targetRole announcement,
              announcements_priority = column_default (ia_priority announcement) ''normal'',
              announcements_isActive = column_default (ia_isActive announcement) True,
              announcements_createdAt = Some (gen_now g) \<rparr>
        in Inr (newAnnouncement, d\<lparr>announcements := announcements d @ [newAnnouncement]\<rparr>))"

text \<open>
  \<open>createAttendance(attendance: InsertAttendance)\<close> runs
  \<open>db.insert(attendance).values(attendance).returning()\<close>. Inside the method the name
  \<open>attendance\<close> is the parameter, which hides the imported table of the same name: the
  object handed to \<open>db.insert\<close> is the submitted record, not a table. \<open>insert_values\<close>
  is the insert for either kind of target: on the table it appends a row; on anything
  else it throws before a statement reaches the database. The submitted record is what
  the route built from the unvalidated request body, so its status is a raw string.
  (\<open>updateAttendance\<close> names its parameter \<open>attendanceData\<close> and does reach the table.)
\<close>

record insertAttendance =
  iat_studentId :: "ident option"
  iat_classId :: "ident option"
  iat_date :: timestamp
  iat_status :: string
  iat_remarks :: "string option"
  iat_recordedBy :: "ident option"

datatype insert_target = AttendanceTable | SubmittedRecord insertAttendance

definition insert_values ::
  "db \<Rightarrow> generated \<Rightarrow> insert_target \<Rightarrow> insertAttendance \<Rightarrow> failure + (attendance_row \<times> db)" where
  "insert_values d g target v =
     (case target of
        SubmittedRecord _ \<Rightarrow> Inl TypeError
      | AttendanceTable \<Rightarrow>
          (case attendanceStatus_of_label (iat_status v) of
             None \<Rightarrow> Inl InvalidEnumValue
           | Some st \<Rightarrow>
               if gen_id g \<in> set (map attendance_id (attendance d)) then Inl UniqueViolation
               else if \<not> (references (iat_studentId v) (map students_id (students d))
                         \<and> references (iat_classId v) (map classes_id (classes d))
                         \<and> references (iat_recordedBy v) (map users_id (users d)))
               then Inl ForeignKeyViolation
               else
                 let row = \<lparr>
                       attendance_id = gen_id g,
                       attendance_studentId = iat_studentId v,
                       attendance_classId = iat_classId v,
                       attendance_date = iat_date v,
                       attendance_status = st,
                       attendance_remarks = iat_remarks v,
                       attendance_recordedBy = iat_recordedBy v,
                       attendance_createdAt = Some (gen_now g) \<rparr>
                 in Inr (row, d\<lparr>attendance := attendance d @ [row]\<rparr>)))"

definition createAttendance ::
  "db \<Rightarrow> generated \<Rightarrow> insertAttendance \<Rightarrow> failure + (attendance_row \<times> db)" where
  "createAttendance d g attendance_param =
     insert_values d g (SubmittedRecord attendance_param) attendance_param"

text \<open>
  \<open>updateAttendance(id, attendanceData: Partial<InsertAttendance>)\<close> runs
  \<open>db.update(attendance).set(attendanceData).where(eq(attendance.id, id)).returning()\<close>
  on the table. A field of the partial record is absent (\<open>None\<close>: the column keeps its
  value) or given; a given nullable column may be \<open>null\<close>. Drizzle refuses a set without
  values; the database casts a given status to the enum, rewrites the rows with the id
  and checks the references of the rows it rewrote. The method returns the first
  rewritten row, \<open>undefined\<close> when no row has the id.
\<close>

record partialAttendance =
  pa_studentId :: "ident option option"
  pa_classId :: "ident option option"
  pa_date :: "timestamp option"
  pa_status :: "string option"
  pa_remarks :: "string option option"
  pa_recordedBy :: "ident option option"

definition no_values :: "partialAttendance \<Rightarrow> bool" where
  "no_values p = (pa_studentId p = None \<and> pa_classId p = None \<and> pa_date p = None
                  \<and> pa_status p = None \<and> pa_remarks p = None \<and> pa_recordedBy p = None)"

definition status_cast :: "string option \<Rightarrow> attendanceStatus option option" where
  "status_cast l = (case l of None \<Rightarrow> Some None
                    | Some label \<Rightarrow> map_option Some (attendanceStatus_of_label label))"

definition set_column :: "'a option \<Rightarrow> 'a \<Rightarrow> 'a" where
  "set_column v old = (case v of None \<Rightarrow> old | Some new \<Rightarrow> new)"

definition set_references :: "ident option option \<Rightarrow> ident list \<Rightarrow> bool" where
  "set_references v ids = (case v of None \<Rightarrow> True | Some c \<Rightarrow> references c ids)"

definition set_attendance :: "partialAttendance \<Rightarrow> attendanceStatus option \<Rightarrow> attendance_row \<Rightarrow> attendance_row" where
  "set_attendance p st r = r\<lparr>
     attendance_studentId := set_column (pa_studentId p) (attendance_studentId r),
     attendance_classId := set_column (pa_classId p) (attendance_classId r),
     attendance_date := set_column (pa_date p) (attendance_date r),
     attendance_status := set_column st (attendance_status r),
     attendance_remarks := set_column (pa_remarks p) (attendance_remarks r),
     attendance_recordedBy := set_column (pa_recordedBy p) (attendance_recordedBy r) \<rparr>"

definition updateAttendance ::
  "db \<Rightarrow> ident \<Rightarrow> partialAttendance \<Rightarrow> failure + (attendance_row option \<times> db)" where
  "updateAttendance d aid attendanceData =
     (if no_values attendanceData then Inl NoValuesToSet
      else
        (case status_cast (pa_status attendanceData) of
           None \<Rightarrow> Inl InvalidEnumValue
         | Some st \<Rightarrow>
             if filter (\<lambda>r. attendance_id r = aid) (attendance d) \<noteq> []
                \<and> \<not> (set_references (pa_studentId attendanceData) (map students_id (students d))
                      \<and> set_references (pa_classId attendanceData) (map classes_id (classes d))
                      \<and> set_references (pa_recordedBy attendanceData) (map users_id (users d)))
             then Inl ForeignKeyViolation
             else
               let rows = map (\<lambda>r. if attendance_id r = aid then set_attendance attendanceData st r else r)
                              (attendance d)
               in Inr (first_row (filter (\<lambda>r. attendance_id r = aid) rows),
                       d\<lparr>attendance := rows\<rparr>)))"

section \<open>Routes (server/routes.ts)\<close>

text \<open>
  \<open>req.user\<close> is what the authentication middleware left on the request. The handlers
  read \<open>req.user.id\<close>, \<open>req.user.role\<close> and, in some routes, \<open>req.user.claims.sub\<close>;
  the middleware is not part of the modelled code, so all three are inputs. A session
  user without a \<open>claims\<close> member has \<open>reqUser_claims = None\<close>, and reading
  \<open>.sub\<close> of it throws a \<open>TypeError\<close>. A handler is given \<open>None\<close> for \<open>req.user\<close>
  when the request carries no user.
\<close>

record claims =
  claims_sub :: ident

record reqUser =
  reqUser_id :: ident
  reqUser_role :: string
  reqUser_claims :: "claims option"

text \<open>
  A response is \<open>res.status(n).json(value)\<close> or \<open>res.status(n).json({ message })\<close>.
  Every handler body sits in \<open>try { ... } catch\<close>, whose handler answers 500.
\<close>

datatype 'a response = Json nat 'a | Message nat string

definition post_grades ::
  "reqUser option \<Rightarrow> insertGrade option \<Rightarrow> generated \<Rightarrow> db \<Rightarrow> grade response \<times> db" where
  "post_grades req_user body g d =
     (case req_user of
        None \<Rightarrow> (Message 403 ''Only teachers can record grades'', d)
      | Some user \<Rightarrow>
          if reqUser_role user \<noteq> ''teacher''
          then (Message 403 ''Only teachers can record grades'', d)
          else
            (case body of
               None \<Rightarrow> (Message 500 ''Failed to create grade'', d)
             | Some gradeData \<Rightarrow>
                 (case createGrade d g gradeData of
                    Inl e \<Rightarrow> (Message 500 ''Failed to create grade'', d)
                  | Inr (grade, d') \<Rightarrow> (Json 201 grade, d'))))"

text \<open>
  \<open>POST /api/announcements\<close> takes the caller from \<open>req.user.claims.sub\<close> and looks the
  user up in the store; the request body is parsed together with \<open>authorId\<close> and
  \<open>schoolId\<close> (\<open>body = None\<close>: the schema rejects it).
\<close>

definition post_announcements ::
  "reqUser option \<Rightarrow> insertAnnouncement option \<Rightarrow> generated \<Rightarrow> db \<Rightarrow> announcement response \<times> db" where
  "post_announcements req_user body g d =
     (case req_user of
        None \<Rightarrow> (Message 500 ''Failed to create announcement'', d)
      | Some ru \<Rightarrow>
     (case reqUser_claims ru of
        None \<Rightarrow> (Message 500 ''Failed to create announcement'', d)
      | Some c \<Rightarrow>
          let userId = claims_sub c in
     (case getUser d userId of
        None \<Rightarrow> (Message 403 ''Only principals and proprietors can create announcements'', d)
      | Some user \<Rightarrow>
          if users_role user \<noteq> Principal \<and> users_role user \<noteq> Proprietor
          then (Message 403 ''Only principals and proprietors can create announcements'', d)
          else
     (case getSchoolByUser d userId of
        None \<Rightarrow> (Message 404 ''School not found'', d)
      | Some school \<Rightarrow>
     (case body of
        None \<Rightarrow> (Message 500 ''Failed to create announcement'', d)
      | Some b \<Rightarrow>
          let announcementData = b\<lparr>ia_authorId := Some userId, ia_schoolId := Some (schools_id school)\<rparr> in
     (case createAnnouncement d g announcementData of
        Inl e \<Rightarrow> (Message 500 ''Failed to create announcement'', d)
      | Inr (announcement, d') \<Rightarrow> (Json 201 announcement, d')))))))"

text \<open>
  \<open>POST /api/attendance\<close> hands \<open>{ ...req.body, recordedBy: user.id }\<close> to
  \<open>createAttendance\<close> without validating the body.
\<close>

definition post_attendance ::
  "reqUser option \<Rightarrow> insertAttendance \<Rightarrow> generated \<Rightarrow> db \<Rightarrow> attendance_row response \<times> db" where
  "post_attendance req_user attendanceData g d =
     (case req_user of
        None \<Rightarrow> (Message 500 ''Failed to create attendance'', d)
      | Some user \<Rightarrow>
          if reqUser_role user \<noteq> ''teacher'' \<and> reqUser_role user \<noteq> ''principal''
          then (Message 403 ''Unauthorized'', d)
          else
            (case createAttendance d g (attendanceData\<lparr>iat_recordedBy := Some (reqUser_id user)\<rparr>) of
               Inl e \<Rightarrow> (Message 500 ''Failed to create attendance'', d)
             | Inr (row, d') \<Rightarrow> (Json 201 row, d')))"


text \<open>
  \<open>GET /api/dashboard\<close>. The payload starts as \<open>{ user, school }\<close> and a role branch
  spreads its sections into it; a section that was not added is \<open>None\<close>. Next to the
  response the model returns the storage methods the handler awaited, in order.
\<close>

record dashboardData =
  dd_user :: user
  dd_school :: "school option"
  dd_student :: "student option"
  dd_grades :: "grade list option"
  dd_attendance :: "attendance_row list option"
  dd_assignments :: "assignment list option"
  dd_messages :: "message list option"
  dd_feePayments :: "feePayment list option"
  dd_teacher :: "teacher option"
  dd_classes :: "class_row list option"
  dd_subjects :: "subject list option"
  dd_teachers :: "teacher list option"
  dd_announcements :: "announcement list option"

datatype storage_call =
    GetUser | GetSchoolByUser | GetStudentByUserId | GetTeacherByUserId
  | GetGradesByStudent | GetAttendanceByStudent | GetAssignmentsByStudent
  | GetMessagesByUser | GetFeePaymentsByStudent
  | GetClassesBySchool | GetSubjectsBySchool | GetTeachersBySchool | GetAnnouncementsBySchool

definition base_payload :: "user \<Rightarrow> school option \<Rightarrow> dashboardData" where
  "base_payload user school = \<lparr>
     dd_user = user, dd_school = school, dd_student = None, dd_grades = None,
     dd_attendance = None, dd_assignments = None, dd_messages = None, dd_feePayments = None,
     dd_teacher = None, dd_classes = None, dd_subjects = None, dd_teachers = None,
     dd_announcements = None \<rparr>"

definition get_dashboard :: "reqUser option \<Rightarrow> db \<Rightarrow> dashboardData response \<times> storage_call list" where
  "get_dashboard req_user d =
     (case req_user of
        None \<Rightarrow> (Message 500 ''Failed to fetch dashboard data'', [])
      | Some ru \<Rightarrow>
          let userId = reqUser_id ru in
     (case getUser d userId of
        None \<Rightarrow> (Message 404 ''User not found'', [GetUser])
      | Some user \<Rightarrow>
          let school = getSchoolByUser d userId;
              dashboardData = base_payload user school;
              calls = [GetUser, GetSchoolByUser]
          in
     (case users_role user of
        Student \<Rightarrow>
          (case getStudentByUserId d userId of
             None \<Rightarrow> (Json 200 dashboardData, calls @ [GetStudentByUserId])
           | Some student \<Rightarrow>
               (case getGradesByStudent d (students_id student) (Some ''first'') of
                  Inl e \<Rightarrow> (Message 500 ''Failed to fetch dashboard data'',
                            calls @ [GetStudentByUserId, GetGradesByStudent])
                | Inr grades_found \<Rightarrow>
                    (Json 200 (dashboardData\<lparr>
                       dd_student := Some student,
                       dd_grades := Some grades_found,
                       dd_attendance := Some (getAttendanceByStudent d (students_id student) None None),
                       dd_assignments := Some (getAssignmentsByStudent d (students_id student)),
                       dd_messages := Some (getMessagesByUser d userId),
                       dd_feePayments := Some (getFeePaymentsByStudent d (students_id student)) \<rparr>),
                     calls @ [GetStudentByUserId, GetGradesByStudent, GetAttendanceByStudent,
                              GetAssignmentsByStudent, GetMessagesByUser, GetFeePaymentsByStudent])))
      | Teacher \<Rightarrow>
          (case getTeacherByUserId d userId of
             None \<Rightarrow> (Json 200 dashboardData, calls @ [GetTeacherByUserId])
           | Some teacher \<Rightarrow>
               (case school of
                  None \<Rightarrow> (Json 200 dashboardData, calls @ [GetTeacherByUserId])
                | Some sch \<Rightarrow>
                    (Json 200 (dashboardData\<lparr>
                       dd_teacher := Some teacher,
                       dd_classes := Some (getClassesBySchool d (schools_id sch)),
                       dd_subjects := Some (getSubjectsBySchool d (schools_id sch)),
                       dd_messages := Some (getMessagesByUser d userId) \<rparr>),
                     calls @ [GetTeacherByUserId, GetClassesBySchool, GetSubjectsBySchool,
                              GetMessagesByUser])))
      | Parent \<Rightarrow> (Json 200 dashboardData, calls)
      | _ \<Rightarrow>
          (case school of
             None \<Rightarrow> (Json 200 dashboardData, calls)
           | Some sch \<Rightarrow>
               (case getAnnouncementsBySchool d (schools_id sch) None of
                  Inl e \<Rightarrow> (Message 500 ''Failed to fetch dashboard data'',
                            calls @ [GetClassesBySchool, GetTeachersBySchool, GetSubjectsBySchool,
                                     GetAnnouncementsBySchool])
                | Inr announcements_found \<Rightarrow>
                    (Json 200 (dashboardData\<lparr>
                       dd_classes := Some (getClassesBySchool d (schools_id sch)),
                       dd_teachers := Some (getTeachersBySchool d (schools_id sch)),
                       dd_subjects := Some (getSubjectsBySchool d (schools_id sch)),
                       dd_announcements := Some announcements_found \<rparr>),
                     calls @ [GetClassesBySchool, GetTeachersBySchool, GetSubjectsBySchool,
                              GetAnnouncementsBySchool]))))))"

section \<open>Sequences of requests\<close>

text \<open>
  Writes served one after the other, each on the store the previous one left: the three
  write routes, and the two storage methods without a route that write the report
  card and the attendance table, \<open>generateReportCard\<close> and \<open>updateAttendance\<close>, called
  on the storage object directly.
\<close>

datatype request =
    PostGrades "reqUser option" "insertGrade option" generated
  | PostAnnouncements "reqUser option" "insertAnnouncement option" generated
  | PostAttendance "reqUser option" insertAttendance generated
  | GenerateReportCard generated ident string ident
  | UpdateAttendance ident partialAttendance

fun handle :: "request \<Rightarrow> db \<Rightarrow> db" where
  "handle (PostGrades u b g) d = snd (post_grades u b g d)"
| "handle (PostAnnouncements u b g) d = snd (post_announcements u b g d)"
| "handle (PostAttendance u b g) d = snd (post_attendance u b g d)"
| "handle (GenerateReportCard g studentId term_arg sessionId) d =
     (case generateReportCard d g studentId term_arg sessionId of
        Inl e \<Rightarrow> d
      | Inr (newReportCard, d') \<Rightarrow> d')"
| "handle (UpdateAttendance aid attendanceData) d =
     (case updateAttendance d aid attendanceData of
        Inl e \<Rightarrow> d
      | Inr (updatedAttendance, d') \<Rightarrow> d')"

fun run :: "request list \<Rightarrow> db \<Rightarrow> db" where
  "run [] d = d"
| "run (r # rs) d = run rs (handle r d)"

text \<open>Two calls of \<open>generateReportCard\<close> with the same arguments, the second on the store the first left.\<close>

definition generate_twice ::
  "db \<Rightarrow> generated \<Rightarrow> generated \<Rightarrow> ident \<Rightarrow> string \<Rightarrow> ident
     \<Rightarrow> failure + (reportCard \<times> reportCard \<times> db)" where
  "generate_twice d g1 g2 studentId term_arg sessionId =
     (case generateReportCard d g1 studentId term_arg sessionId of
        Inl e \<Rightarrow> Inl e
      | Inr (card1, d1) \<Rightarrow>
          (case generateReportCard d1 g2 studentId term_arg sessionId of
             Inl e \<Rightarrow> Inl e
           | Inr (card2, d2) \<Rightarrow> Inr (card1, card2, d2)))"

section \<open>Vocabulary of the properties\<close>

text \<open>The four relations between an identity and a school, read off the columns that link them.\<close>

definition proprietor_of :: "db \<Rightarrow> ident \<Rightarrow> school \<Rightarrow> bool" where
  "proprietor_of d u s = (s \<in> set (schools d) \<and> schools_proprietorId s = Some u)"

definition principal_of :: "db \<Rightarrow> ident \<Rightarrow> school \<Rightarrow> bool" where
  "principal_of d u s = (s \<in> set (schools d) \<and> schools_principalId s = Some u)"

definition teacher_of :: "db \<Rightarrow> ident \<Rightarrow> school \<Rightarrow> bool" where
  "teacher_of d u s = (s \<in> set (schools d) \<and>
     (\<exists>t\<in>set (teachers d). teachers_userId t = Some u \<and> teachers_schoolId t = Some (schools_id s)))"

definition student_of :: "db \<Rightarrow> ident \<Rightarrow> school \<Rightarrow> bool" where
  "student_of d u s = (s \<in> set (schools d) \<and>
     (\<exists>st\<in>set (students d). students_userId st = Some u \<and> students_schoolId st = Some (schools_id s)))"

text \<open>The report cards stored for one (student, term, session).\<close>

definition reportCardsFor :: "db \<Rightarrow> ident \<Rightarrow> termEnum \<Rightarrow> ident \<Rightarrow> reportCard list" where
  "reportCardsFor d studentId tm sessionId =
     filter (\<lambda>r. reportCards_studentId r = Some studentId \<and> reportCards_term r = tm
                \<and> reportCards_academicSessionId r = Some sessionId) (reportCards d)"



section \<open>A concrete store\<close>

text \<open>
  School X has proprietor u1 and principal u2; u1 is also a teacher at school Y.
  u3 teaches at X, u4 is the student S of X, u5 is a student identity and u6 a teacher
  identity without a profile; u6 is entered as the principal of Y. S has two published first-term grades in SESSION1,
  85/100 in MATH and 92/100 in CHEM, and one second-term grade. X has two active
  announcements, one for teachers and one without a target role.
\<close>

definition school_X :: school where
  "school_X = \<lparr> schools_id = ''X'', schools_name = ''X College'',
                schools_proprietorId = Some ''u1'', schools_principalId = Some ''u2'' \<rparr>"

definition school_Y :: school where
  "school_Y = \<lparr> schools_id = ''Y'', schools_name = ''Y College'',
                schools_proprietorId = None, schools_principalId = Some ''u6'' \<rparr>"

definition student_S :: student where
  "student_S = \<lparr> students_id = ''S'', students_userId = Some ''u4'', students_studentId = ''STU001'',
                 students_classId = Some ''C1'', students_schoolId = Some ''X'',
                 students_parentId = None \<rparr>"

definition grade_math :: grade where
  "grade_math = \<lparr> grades_id = ''G1'', grades_studentId = Some ''S'', grades_subjectId = Some ''MATH'',
      grades_teacherId = Some ''T1'', grades_academicSessionId = Some ''SESSION1'',
      grades_term = First, grades_assessmentType = ''exam'', grades_score = Some 8500,
      grades_maxScore = Some 10000, grades_status = Some Published, grades_gradedAt = None,
      grades_createdAt = Some 1 \<rparr>"

definition grade_chem :: grade where
  "grade_chem = \<lparr> grades_id = ''G2'', grades_studentId = Some ''S'', grades_subjectId = Some ''CHEM'',
      grades_teacherId = Some ''T1'', grades_academicSessionId = Some ''SESSION1'',
      grades_term = First, grades_assessmentType = ''exam'', grades_score = Some 9200,
      grades_maxScore = Some 10000, grades_status = Some Published, grades_gradedAt = None,
      grades_createdAt = Some 2 \<rparr>"

definition grade_second :: grade where
  "grade_second = \<lparr> grades_id = ''G3'', grades_studentId = Some ''S'', grades_subjectId = Some ''MATH'',
      grades_teacherId = Some ''T1'', grades_academicSessionId = Some ''SESSION1'',
      grades_term = Second, grades_assessmentType = ''test1'', grades_score = Some 7000,
      grades_maxScore = Some 10000, grades_status = Some Published, grades_gradedAt = None,
      grades_createdAt = Some 3 \<rparr>"

definition attendance_S :: attendance_row where
  "attendance_S = \<lparr> attendance_id = ''A1'', attendance_studentId = Some ''S'',
      attendance_classId = Some ''C1'', attendance_date = 100, attendance_status = Present,
      attendance_remarks = None, attendance_recordedBy = Some ''u3'',
      attendance_createdAt = Some 100 \<rparr>"

definition announcement_teachers :: announcement where
  "announcement_teachers = \<lparr> announcements_id = ''AN1'', announcements_title = ''Staff meeting'',
      announcements_content = ''Monday'', announcements_authorId = Some ''u2'',
      announcements_schoolId = Some ''X'', announcements_targetRole = Some Teacher,
      announcements_priority = Some ''normal'', announcements_isActive = Some True,
      announcements_createdAt = Some 1 \<rparr>"

definition announcement_all :: announcement where
  "announcement_all = \<lparr> announcements_id = ''AN2'', announcements_title = ''Resumption'',
      announcements_content = ''Next week'', announcements_authorId = Some ''u2'',
      announcements_schoolId = Some ''X'', announcements_targetRole = None,
      announcements_priority = Some ''normal'', announcements_isActive = Some True,
      announcements_createdAt = Some 2 \<rparr>"

definition scenario_db :: db where
  "scenario_db = \<lparr>
     users = [\<lparr> users_id = ''u1'', users_email = ''u1@x'', users_role = Proprietor \<rparr>,
              \<lparr> users_id = ''u2'', users_email = ''u2@x'', users_role = Principal \<rparr>,
              \<lparr> users_id = ''u3'', users_email = ''u3@x'', users_role = Teacher \<rparr>,
              \<lparr> users_id = ''u4'', users_email = ''u4@x'', users_role = Student \<rparr>,
              \<lparr> users_id = ''u5'', users_email = ''u5@x'', users_role = Student \<rparr>,
              \<lparr> users_id = ''u6'', users_email = ''u6@x'', users_role = Teacher \<rparr>],
     schools = [school_X, school_Y],
     academicSessions = [\<lparr> academicSessions_id = ''SESSION1'', academicSessions_name = ''2023/2024'',
                           academicSessions_schoolId = Some ''X'', academicSessions_isActive = Some True \<rparr>],
     classes = [\<lparr> classes_id = ''C1'', classes_name = ''JSS 1A'', classes_schoolId = Some ''X'' \<rparr>],
     subjects = [\<lparr> subjects_id = ''MATH'', subjects_name = ''Mathematics'', subjects_schoolId = Some ''X'' \<rparr>,
                 \<lparr> subjects_id = ''CHEM'', subjects_name = ''Chemistry'', subjects_schoolId = Some ''X'' \<rparr>],
     students = [student_S],
     teachers = [\<lparr> teachers_id = ''T1'', teachers_userId = Some ''u3'', teachers_teacherId = ''TCH001'',
                   teachers_schoolId = Some ''X'' \<rparr>,
                 \<lparr> teachers_id = ''T2'', teachers_userId = Some ''u1'', teachers_teacherId = ''TCH002'',
                   teachers_schoolId = Some ''Y'' \<rparr>],
     grades = [grade_math, grade_chem, grade_second],
     attendance = [attendance_S],
     assignments = [],
     messages = [],
     feePayments = [],
     announcements = [announcement_teachers, announcement_all],
     reportCards = [] \<rparr>"

definition session_user :: "ident \<Rightarrow> string \<Rightarrow> reqUser" where
  "session_user uid role_label = \<lparr> reqUser_id = uid, reqUser_role = role_label, reqUser_claims = None \<rparr>"

text \<open>
  Two attendance submissions as the client's attendance tracker posts them: one for
  student S on the date of the record the store already holds, and one with the status
  excused, which the tracker offers next to present, absent and late.
\<close>

definition duplicate_submission :: insertAttendance where
  "duplicate_submission = \<lparr> iat_studentId = Some ''S'', iat_classId = Some ''C1'', iat_date = 100,
      iat_status = ''present'', iat_remarks = None, iat_recordedBy = None \<rparr>"

definition excused_submission :: insertAttendance where
  "excused_submission = \<lparr> iat_studentId = Some ''S'', iat_classId = Some ''C1'', iat_date = 200,
      iat_status = ''excused'', iat_remarks = None, iat_recordedBy = None \<rparr>"









section \<open>Facts about the query building blocks\<close>

lemma first_row_None: "first_row rows = None \<longleftrightarrow> rows = []"
  by (simp add: first_row_def split: list.splits)

lemma first_row_filter_None:
  "first_row (filter P xs) = None \<longleftrightarrow> (\<forall>x\<in>set xs. \<not> P x)"
  by (simp add: first_row_None filter_empty_conv)

lemma first_row_filter_Some:
  assumes "first_row (filter P xs) = Some x"
  shows "x \<in> set xs \<and> P x"
proof -
  from assms obtain ys where "filter P xs = x # ys"
    by (auto simp: first_row_def split: list.splits)
  then have "x \<in> set (filter P xs)" by simp
  then show ?thesis by simp
qed

lemma set_innerJoin:
  "set (innerJoin as bs on) = {(a, b). a \<in> set as \<and> b \<in> set bs \<and> on a b}"
  by (auto simp: innerJoin_def)

text \<open>\<open>orderBy\<close> keeps the rows it is given and returns them in the order of the comparison.\<close>

lemma mset_insert_by: "mset (insert_by le x xs) = add_mset x (mset xs)"
  by (induction xs) auto

lemma mset_orderBy: "mset (orderBy le xs) = mset xs"
  by (induction xs) (auto simp: orderBy_def mset_insert_by)

lemma set_orderBy: "set (orderBy le xs) = set xs"
  using mset_orderBy [of le xs] by (metis set_mset_mset)

lemma set_insert_by: "set (insert_by le x xs) = insert x (set xs)"
  using mset_insert_by [of le x xs] by (metis set_mset_mset set_mset_add_mset_insert)

lemma sorted_insert_by:
  assumes total: "\<And>a b. le a b \<or> le b a"
    and trans: "\<And>a b c. le a b \<Longrightarrow> le b c \<Longrightarrow> le a c"
  shows "sorted_wrt le xs \<Longrightarrow> sorted_wrt le (insert_by le x xs)"
proof (induction xs)
  case Nil
  then show ?case by simp
next
  case (Cons y ys)
  show ?case
  proof (cases "le x y")
    case True
    with Cons.prems show ?thesis by (auto intro: trans)
  next
    case False
    then have "le y x" using total by blast
    with Cons False show ?thesis by (auto simp: set_insert_by)
  qed
qed

lemma sorted_orderBy:
  assumes total: "\<And>a b. le a b \<or> le b a"
    and trans: "\<And>a b c. le a b \<Longrightarrow> le b c \<Longrightarrow> le a c"
  shows "sorted_wrt le (orderBy le xs)"
proof (induction xs)
  case Nil
  then show ?case by (simp add: orderBy_def)
next
  case (Cons x xs)
  have "orderBy le (x # xs) = insert_by le x (orderBy le xs)" by (simp add: orderBy_def)
  with Cons show ?case using sorted_insert_by [of le, OF total trans] by simp
qed

lemma desc_total: "desc col a b \<or> desc col b a"
  by (auto simp: desc_def desc_null_def split: option.splits)

lemma desc_trans: "desc col a b \<Longrightarrow> desc col b c \<Longrightarrow> desc col a c"
  by (auto simp: desc_def desc_null_def split: option.splits)

lemma sorted_orderBy_desc: "sorted_wrt (desc col) (orderBy (desc col) xs)"
proof (rule sorted_orderBy)
  fix a b show "desc col a b \<or> desc col b a" by (rule desc_total)
next
  fix a b c assume "desc col a b" "desc col b c"
  then show "desc col a c" by (rule desc_trans)
qed

lemma termEnum_of_label_label: "termEnum_of_label (termEnum_label t) = Some t"
  by (cases t) (simp_all add: termEnum_of_label_def)

lemma termEnum_label_nonempty: "termEnum_label t \<noteq> []"
  by (cases t) simp_all

lemma userRole_of_label_label: "userRole_of_label (userRole_label r) = Some r"
  by (cases r) (simp_all add: userRole_of_label_def)

lemma attendanceStatus_of_label_label: "attendanceStatus_of_label (attendanceStatus_label st) = Some st"
  by (cases st) (simp_all add: attendanceStatus_of_label_def)

lemmas scenario_defs = scenario_db_def school_X_def school_Y_def student_S_def grade_math_def
  grade_chem_def grade_second_def attendance_S_def announcement_teachers_def announcement_all_def
  session_user_def

section \<open>Report cards\<close>

text \<open>
  C1. The claim: \<open>generateReportCard\<close> sums the scores and the maximum scores of the
  student's published grades of the term and session and stores their ratio as the
  average; for the published grades 85/100 and 92/100 of term first it returns
  177, 200 and 88.50. The code inserts a row of constants. On the store that holds
  exactly these two grades for student S the returned card has total score 0, total
  possible 0 and average 0, and position and class size 0 rather than NULL.
\<close>

theorem generateReportCard_scenario_zero:
  "\<exists>rc d'. generateReportCard scenario_db g ''S'' ''first'' ''SESSION1'' = Inr (rc, d')
      \<and> reportCards_totalScore rc = Some 0
      \<and> reportCards_totalPossible rc = Some 0
      \<and> reportCards_average rc = Some 0
      \<and> reportCards_position rc = Some 0
      \<and> reportCards_classSize rc = Some 0"
  by (simp add: generateReportCard_def termEnum_of_label_def references_def Let_def scenario_defs)

text \<open>The same on every store: a card that is returned carries the constants, whatever the grades.\<close>

lemma generateReportCard_ignores_grades:
  "generateReportCard d g sid t sess = Inr (rc, d')
   \<Longrightarrow> reportCards_totalScore rc = Some 0 \<and> reportCards_totalPossible rc = Some 0
       \<and> reportCards_average rc = Some 0 \<and> reportCards_position rc = Some 0
       \<and> reportCards_classSize rc = Some 0"
  by (auto simp: generateReportCard_def Let_def split: option.splits if_splits)

text \<open>
  C2, as stated: a second call for the same (student, term, session) overwrites the
  card, so that exactly one row exists afterwards. It does not: after two calls for
  (S, first, SESSION1) the store holds two cards for that key.
\<close>

theorem generateReportCard_twice_two_rows:
  "length (reportCardsFor
     (run [GenerateReportCard \<lparr> gen_id = ''RC1'', gen_now = 10 \<rparr> ''S'' ''first'' ''SESSION1'',
           GenerateReportCard \<lparr> gen_id = ''RC2'', gen_now = 20 \<rparr> ''S'' ''first'' ''SESSION1'']
        scenario_db)
     ''S'' First ''SESSION1'') = 2"
  by (simp add: reportCardsFor_def generateReportCard_def termEnum_of_label_def references_def
      Let_def scenario_defs)

text \<open>
  C2, amended. \<open>generateReportCard\<close> appends: for a term of the enum, a student and a
  session that exist, and two fresh, distinct generated ids, both of two successive
  calls with the same arguments succeed, each adds one row at the end of the table and
  changes nothing else, and the two rows agree in every field except the generated
  \<open>id\<close> and \<open>generatedAt\<close>. The cards stored for the key are the earlier ones followed
  by the two new ones.
\<close>

theorem generateReportCard_appends:
  assumes "termEnum_of_label t = Some tm"
    and "sid \<in> set (map students_id (students d))"
    and "sess \<in> set (map academicSessions_id (academicSessions d))"
    and "gen_id g1 \<notin> set (map reportCards_id (reportCards d))"
    and "gen_id g2 \<notin> set (map reportCards_id (reportCards d))"
    and "gen_id g1 \<noteq> gen_id g2"
  shows "\<exists>rc1 rc2.
           generate_twice d g1 g2 sid t sess
             = Inr (rc1, rc2, d\<lparr>reportCards := reportCards d @ [rc1, rc2]\<rparr>)
         \<and> reportCards_id rc1 = gen_id g1
         \<and> rc2 = rc1\<lparr>reportCards_id := gen_id g2, reportCards_generatedAt := Some (gen_now g2)\<rparr>
         \<and> reportCardsFor (d\<lparr>reportCards := reportCards d @ [rc1, rc2]\<rparr>) sid tm sess
             = reportCardsFor d sid tm sess @ [rc1, rc2]"
  using assms
  by (simp add: generate_twice_def generateReportCard_def references_def Let_def reportCardsFor_def)

theorem generateReportCard_appends_witness:
  "\<exists>rc1 rc2.
     generate_twice scenario_db \<lparr> gen_id = ''RC1'', gen_now = 10 \<rparr> \<lparr> gen_id = ''RC2'', gen_now = 20 \<rparr>
         ''S'' ''first'' ''SESSION1''
       = Inr (rc1, rc2, scenario_db\<lparr>reportCards := reportCards scenario_db @ [rc1, rc2]\<rparr>)
     \<and> reportCards_id rc1 = ''RC1''
     \<and> rc2 = rc1\<lparr>reportCards_id := ''RC2'', reportCards_generatedAt := Some 20\<rparr>
     \<and> reportCardsFor (scenario_db\<lparr>reportCards := reportCards scenario_db @ [rc1, rc2]\<rparr>)
          ''S'' First ''SESSION1''
         = reportCardsFor scenario_db ''S'' First ''SESSION1'' @ [rc1, rc2]"
proof -
  have h1: "termEnum_of_label ''first'' = Some First" by (simp add: termEnum_of_label_def)
  have h2: "''S'' \<in> set (map students_id (students scenario_db))" by (simp add: scenario_defs)
  have h3: "''SESSION1'' \<in> set (map academicSessions_id (academicSessions scenario_db))"
    by (simp add: scenario_defs)
  have h4: "gen_id \<lparr> gen_id = ''RC1'', gen_now = 10 \<rparr> \<notin> set (map reportCards_id (reportCards scenario_db))"
    by (simp add: scenario_defs)
  have h5: "gen_id \<lparr> gen_id = ''RC2'', gen_now = 20 \<rparr> \<notin> set (map reportCards_id (reportCards scenario_db))"
    by (simp add: scenario_defs)
  have h6: "gen_id \<lparr> gen_id = ''RC1'', gen_now = 10 \<rparr> \<noteq> gen_id \<lparr> gen_id = ''RC2'', gen_now = 20::int \<rparr>"
    by simp
  show ?thesis using generateReportCard_appends [OF h1 h2 h3 h4 h5 h6] by simp
qed

section \<open>Grade reads\<close>

text \<open>
  C8. For every student and every optional term (one of first, second, third, or none),
  \<open>getGradesByStudent\<close> returns: with a term, exactly the student's grades of that term;
  without one, exactly the student's grades of all terms; in both cases newest first by
  \<open>createdAt\<close> (a row without a creation time, which \<open>createGrade\<close> never writes, sorts
  before the others, as PostgreSQL does under \<open>desc\<close>).
\<close>

theorem getGradesByStudent_term_filter:
  "\<exists>rows. getGradesByStudent d studentId (map_option termEnum_label t) = Inr rows
     \<and> mset rows = mset (filter (\<lambda>g. grades_studentId g = Some studentId
                                   \<and> (case t of None \<Rightarrow> True | Some tm \<Rightarrow> grades_term g = tm)) (grades d))
     \<and> sorted_wrt (\<lambda>g h. case grades_createdAt g of None \<Rightarrow> True
                          | Some a \<Rightarrow> (case grades_createdAt h of None \<Rightarrow> False | Some b \<Rightarrow> b \<le> a)) rows"
proof -
  have newest: "(\<lambda>g h. case grades_createdAt g of None \<Rightarrow> True
                  | Some a \<Rightarrow> (case grades_createdAt h of None \<Rightarrow> False | Some b \<Rightarrow> b \<le> a))
                = desc grades_createdAt"
    by (intro ext) (simp add: desc_def desc_null_def)
  show ?thesis
  proof (cases t)
    case None
    then show ?thesis
      unfolding newest
      by (simp add: getGradesByStudent_def truthy_def mset_orderBy eq_val_def sorted_orderBy_desc)
  next
    case (Some tm)
    then show ?thesis
      unfolding newest
      by (simp add: getGradesByStudent_def truthy_def mset_orderBy eq_val_def sorted_orderBy_desc
          termEnum_of_label_label termEnum_label_nonempty)
  qed
qed

theorem getGradesByStudent_term_filter_witness:
  "getGradesByStudent scenario_db ''S'' (Some ''first'') = Inr [grade_chem, grade_math]
   \<and> getGradesByStudent scenario_db ''S'' None = Inr [grade_second, grade_chem, grade_math]"
  using getGradesByStudent_term_filter [of scenario_db "''S''" "Some First"]
    getGradesByStudent_term_filter [of scenario_db "''S''" None]
  by (simp add: getGradesByStudent_def truthy_def termEnum_of_label_def orderBy_def desc_def
      desc_null_def eq_val_def scenario_defs)

section \<open>Attendance writes\<close>

text \<open>
  \<open>createAttendance\<close> throws on every input, so \<open>POST /api/attendance\<close> never changes
  the store.
\<close>

lemma createAttendance_throws: "createAttendance d g a = Inl TypeError"
  by (simp add: createAttendance_def insert_values_def)

lemma post_attendance_store: "snd (post_attendance u b g d) = d"
  by (simp add: post_attendance_def createAttendance_throws split: option.splits)






text \<open>The labels of the attendance status are present, absent and late, and no others.\<close>

lemma attendanceStatus_labels:
  "(\<exists>st. attendanceStatus_of_label s = Some st) = (s = ''present'' \<or> s = ''absent'' \<or> s = ''late'')"
  by (auto simp: attendanceStatus_of_label_def)

text \<open>
  C9. The claim: the attendance status ranges over the four values present, absent,
  late and excused, and some submission with status excused is accepted and stored.
  The client's attendance tracker offers the four values and posts the chosen one. The
  enum of the schema has no label excused: a teacher's submission with that status is
  answered 500 and nothing is stored, and an insert of it aimed at the table itself is
  refused by the database for the label.
\<close>

theorem post_attendance_excused:
  "attendanceStatus_of_label ''excused'' = None
   \<and> post_attendance (Some (session_user ''u3'' ''teacher'')) excused_submission g scenario_db
       = (Message 500 ''Failed to create attendance'', scenario_db)
   \<and> insert_values scenario_db g AttendanceTable excused_submission = Inl InvalidEnumValue"
  by (simp add: attendanceStatus_of_label_def post_attendance_def createAttendance_def
      insert_values_def session_user_def excused_submission_def)

section \<open>Scope resolver\<close>

lemma getSchoolByUser_cases:
  "(case getSchoolByUser d u of
      Some s \<Rightarrow>
        proprietor_of d u s
        \<or> (\<not> (\<exists>p\<in>set (schools d). proprietor_of d u p) \<and> principal_of d u s)
        \<or> (\<not> (\<exists>p\<in>set (schools d). proprietor_of d u p \<or> principal_of d u p) \<and> teacher_of d u s)
        \<or> (\<not> (\<exists>p\<in>set (schools d). proprietor_of d u p \<or> principal_of d u p \<or> teacher_of d u p)
             \<and> student_of d u s)
    | None \<Rightarrow>
        \<not> (\<exists>p\<in>set (schools d). proprietor_of d u p \<or> principal_of d u p
                                   \<or> teacher_of d u p \<or> student_of d u p))"
  unfolding getSchoolByUser_def proprietor_of_def principal_of_def teacher_of_def student_of_def
  by (auto split: option.splits
      simp: first_row_filter_None set_innerJoin eq_val_def dest!: first_row_filter_Some)

text \<open>
  C3. \<open>getSchoolByUser\<close> resolves in the order proprietor, principal, teacher, student:
  an identity that is the proprietor of some school gets a school it is the proprietor
  of (also when it teaches at another school); otherwise, if it is the principal of
  some school, a school it is the principal of; otherwise, if it is a teacher of some
  school, a school it teaches at; otherwise, if it is a student of some school, its
  school as a student; and an identity with none of the four relations gets \<open>None\<close>,
  a value and not an error.
\<close>

theorem getSchoolByUser_precedence:
  "((\<exists>p\<in>set (schools d). proprietor_of d u p)
      \<longrightarrow> (\<exists>s. getSchoolByUser d u = Some s \<and> proprietor_of d u s))
   \<and> (\<not> (\<exists>p\<in>set (schools d). proprietor_of d u p) \<and> (\<exists>p\<in>set (schools d). principal_of d u p)
      \<longrightarrow> (\<exists>s. getSchoolByUser d u = Some s \<and> principal_of d u s))
   \<and> (\<not> (\<exists>p\<in>set (schools d). proprietor_of d u p \<or> principal_of d u p)
        \<and> (\<exists>p\<in>set (schools d). teacher_of d u p)
      \<longrightarrow> (\<exists>s. getSchoolByUser d u = Some s \<and> teacher_of d u s))
   \<and> (\<not> (\<exists>p\<in>set (schools d). proprietor_of d u p \<or> principal_of d u p \<or> teacher_of d u p)
        \<and> (\<exists>p\<in>set (schools d). student_of d u p)
      \<longrightarrow> (\<exists>s. getSchoolByUser d u = Some s \<and> student_of d u s))
   \<and> (\<not> (\<exists>p\<in>set (schools d). proprietor_of d u p \<or> principal_of d u p
                                  \<or> teacher_of d u p \<or> student_of d u p)
      \<longrightarrow> getSchoolByUser d u = None)"
proof (cases "getSchoolByUser d u")
  case None
  with getSchoolByUser_cases [of d u] show ?thesis by auto
next
  case (Some s)
  have in_schools: "s' \<in> set (schools d)"
    if "proprietor_of d u s' \<or> principal_of d u s' \<or> teacher_of d u s' \<or> student_of d u s'" for s'
    using that by (auto simp: proprietor_of_def principal_of_def teacher_of_def student_of_def)
  from Some getSchoolByUser_cases [of d u]
  have "proprietor_of d u s
        \<or> (\<not> (\<exists>p\<in>set (schools d). proprietor_of d u p) \<and> principal_of d u s)
        \<or> (\<not> (\<exists>p\<in>set (schools d). proprietor_of d u p \<or> principal_of d u p) \<and> teacher_of d u s)
        \<or> (\<not> (\<exists>p\<in>set (schools d). proprietor_of d u p \<or> principal_of d u p \<or> teacher_of d u p)
             \<and> student_of d u s)"
    by simp
  with Some in_schools show ?thesis by blast
qed

lemmas relation_defs = proprietor_of_def principal_of_def teacher_of_def student_of_def

lemma scenario_getSchoolByUser:
  "getSchoolByUser scenario_db ''u1'' = Some school_X"
  "getSchoolByUser scenario_db ''u2'' = Some school_X"
  "getSchoolByUser scenario_db ''u3'' = Some school_X"
  "getSchoolByUser scenario_db ''u4'' = Some school_X"
  "getSchoolByUser scenario_db ''u5'' = None"
  by (simp_all add: getSchoolByUser_def first_row_def innerJoin_def eq_val_def scenario_defs)

theorem getSchoolByUser_precedence_witness:
  "proprietor_of scenario_db ''u1'' school_X \<and> teacher_of scenario_db ''u1'' school_Y
   \<and> getSchoolByUser scenario_db ''u1'' = Some school_X
   \<and> principal_of scenario_db ''u2'' school_X \<and> getSchoolByUser scenario_db ''u2'' = Some school_X
   \<and> teacher_of scenario_db ''u3'' school_X \<and> getSchoolByUser scenario_db ''u3'' = Some school_X
   \<and> student_of scenario_db ''u4'' school_X \<and> getSchoolByUser scenario_db ''u4'' = Some school_X
   \<and> getSchoolByUser scenario_db ''u5'' = None"
proof -
  have rel: "proprietor_of scenario_db ''u1'' school_X" "teacher_of scenario_db ''u1'' school_Y"
    "principal_of scenario_db ''u2'' school_X" "teacher_of scenario_db ''u3'' school_X"
    "student_of scenario_db ''u4'' school_X"
    by (simp_all add: relation_defs scenario_defs)
  show ?thesis
    using rel scenario_getSchoolByUser
      getSchoolByUser_precedence [of scenario_db "''u1''"]
      getSchoolByUser_precedence [of scenario_db "''u2''"]
      getSchoolByUser_precedence [of scenario_db "''u3''"]
      getSchoolByUser_precedence [of scenario_db "''u4''"]
      getSchoolByUser_precedence [of scenario_db "''u5''"]
    by simp
qed

section \<open>Announcement reads\<close>

text \<open>
  C4. The claim: with a role filter, \<open>getAnnouncementsBySchool\<close> returns the active
  announcements of the school whose target role is the given role or is missing, so a
  query for role student includes an announcement without a target role. The query
  compares the target role with the given role, and a NULL target role equals nothing:
  in school X, whose two active announcements are one for teachers and one for
  everybody, the query for role student returns no announcement at all, while the
  query without a role returns both, newest first.
\<close>

theorem getAnnouncementsBySchool_student_scenario:
  "getAnnouncementsBySchool scenario_db ''X'' (Some ''student'') = Inr []
   \<and> getAnnouncementsBySchool scenario_db ''X'' None = Inr [announcement_all, announcement_teachers]"
  by (simp add: getAnnouncementsBySchool_def truthy_def userRole_of_label_def orderBy_def desc_def
      desc_null_def eq_val_def scenario_defs)

text \<open>On every store: what a role-filtered read returns has a target role.\<close>

lemma getAnnouncementsBySchool_role_needs_target:
  assumes "getAnnouncementsBySchool d schoolId (Some r) = Inr rows" and "r \<noteq> []"
    and "a \<in> set rows"
  shows "announcements_targetRole a \<noteq> None"
  using assms
  by (auto simp: getAnnouncementsBySchool_def truthy_def set_orderBy eq_val_def
      split: option.splits)

section \<open>Role checks of the write routes\<close>

text \<open>
  \<open>POST /api/grades\<close> and \<open>POST /api/attendance\<close> answer 403 to a caller with the wrong
  role and leave the store alone; so does \<open>POST /api/announcements\<close> once it has found
  the caller through \<open>req.user.claims.sub\<close>.
\<close>

lemma post_grades_rejects:
  "reqUser_role ru \<noteq> ''teacher''
   \<Longrightarrow> post_grades (Some ru) body g d = (Message 403 ''Only teachers can record grades'', d)"
  by (simp add: post_grades_def)

lemma post_attendance_rejects:
  "reqUser_role ru \<noteq> ''teacher'' \<Longrightarrow> reqUser_role ru \<noteq> ''principal''
   \<Longrightarrow> post_attendance (Some ru) body g d = (Message 403 ''Unauthorized'', d)"
  by (simp add: post_attendance_def)

lemma post_announcements_rejects:
  "reqUser_claims ru = Some c \<Longrightarrow> getUser d (claims_sub c) = Some u
   \<Longrightarrow> users_role u \<noteq> Principal \<Longrightarrow> users_role u \<noteq> Proprietor
   \<Longrightarrow> post_announcements (Some ru) body g d
       = (Message 403 ''Only principals and proprietors can create announcements'', d)"
  by (simp add: post_announcements_def)

text \<open>
  C5. The claim: each write route answers a caller with the wrong role with 403 before
  it touches the store. \<open>POST /api/announcements\<close> reads \<open>req.user.claims.sub\<close>, which
  a session user as the other routes read it (\<open>id\<close>, \<open>role\<close>) does not have: for a
  teacher with such a session the handler throws, and the answer is 500, not 403. The
  store is left as it was.
\<close>

theorem post_announcements_session_user:
  "post_announcements (Some (session_user ''u3'' ''teacher'')) body g d
     = (Message 500 ''Failed to create announcement'', d)"
  by (simp add: post_announcements_def session_user_def)

section \<open>Dashboard\<close>

text \<open>
  C7. For an identity the store knows: if its role is student and it has no student
  profile, or its role is teacher and it has no teacher profile, \<open>GET /api/dashboard\<close>
  answers 200 with the base payload: the user is the identity, the school is the one
  \<open>getSchoolByUser\<close> resolves for it, and every other section is missing. The only
  storage methods it awaited are \<open>getUser\<close>, \<open>getSchoolByUser\<close> and the profile
  lookup.
\<close>

theorem get_dashboard_degrades:
  assumes "getUser d (reqUser_id ru) = Some u"
  shows "(users_role u = Student \<and> getStudentByUserId d (reqUser_id ru) = None
            \<longrightarrow> get_dashboard (Some ru) d
                  = (Json 200 \<lparr> dd_user = u, dd_school = getSchoolByUser d (reqUser_id ru),
                       dd_student = None, dd_grades = None, dd_attendance = None,
                       dd_assignments = None, dd_messages = None, dd_feePayments = None,
                       dd_teacher = None, dd_classes = None, dd_subjects = None,
                       dd_teachers = None, dd_announcements = None \<rparr>,
                     [GetUser, GetSchoolByUser, GetStudentByUserId]))
       \<and> (users_role u = Teacher \<and> getTeacherByUserId d (reqUser_id ru) = None
            \<longrightarrow> get_dashboard (Some ru) d
                  = (Json 200 \<lparr> dd_user = u, dd_school = getSchoolByUser d (reqUser_id ru),
                       dd_student = None, dd_grades = None, dd_attendance = None,
                       dd_assignments = None, dd_messages = None, dd_feePayments = None,
                       dd_teacher = None, dd_classes = None, dd_subjects = None,
                       dd_teachers = None, dd_announcements = None \<rparr>,
                     [GetUser, GetSchoolByUser, GetTeacherByUserId]))"
  using assms by (simp add: get_dashboard_def base_payload_def Let_def)

theorem get_dashboard_degrades_witness:
  "getUser scenario_db ''u5'' = Some \<lparr> users_id = ''u5'', users_email = ''u5@x'', users_role = Student \<rparr>
   \<and> getStudentByUserId scenario_db ''u5'' = None
   \<and> get_dashboard (Some (session_user ''u5'' ''student'')) scenario_db
       = (Json 200 \<lparr> dd_user = \<lparr> users_id = ''u5'', users_email = ''u5@x'', users_role = Student \<rparr>,
                     dd_school = None,
                     dd_student = None, dd_grades = None, dd_attendance = None,
                     dd_assignments = None, dd_messages = None, dd_feePayments = None,
                     dd_teacher = None, dd_classes = None, dd_subjects = None,
                     dd_teachers = None, dd_announcements = None \<rparr>,
          [GetUser, GetSchoolByUser, GetStudentByUserId])
   \<and> getUser scenario_db ''u6'' = Some \<lparr> users_id = ''u6'', users_email = ''u6@x'', users_role = Teacher \<rparr>
   \<and> getTeacherByUserId scenario_db ''u6'' = None
   \<and> get_dashboard (Some (session_user ''u6'' ''teacher'')) scenario_db
       = (Json 200 \<lparr> dd_user = \<lparr> users_id = ''u6'', users_email = ''u6@x'', users_role = Teacher \<rparr>,
                     dd_school = Some school_Y,
                     dd_student = None, dd_grades = None, dd_attendance = None,
                     dd_assignments = None, dd_messages = None, dd_feePayments = None,
                     dd_teacher = None, dd_classes = None, dd_subjects = None,
                     dd_teachers = None, dd_announcements = None \<rparr>,
          [GetUser, GetSchoolByUser, GetTeacherByUserId])"
proof -
  have u5: "getUser scenario_db (reqUser_id (session_user ''u5'' ''student''))
              = Some \<lparr> users_id = ''u5'', users_email = ''u5@x'', users_role = Student \<rparr>"
    by (simp add: getUser_def first_row_def scenario_defs)
  have u6: "getUser scenario_db (reqUser_id (session_user ''u6'' ''teacher''))
              = Some \<lparr> users_id = ''u6'', users_email = ''u6@x'', users_role = Teacher \<rparr>"
    by (simp add: getUser_def first_row_def scenario_defs)
  have found: "getStudentByUserId scenario_db ''u5'' = None" "getTeacherByUserId scenario_db ''u6'' = None"
    "getSchoolByUser scenario_db ''u5'' = None" "getSchoolByUser scenario_db ''u6'' = Some school_Y"
    by (simp_all add: getStudentByUserId_def getTeacherByUserId_def getSchoolByUser_def
        first_row_def innerJoin_def eq_val_def scenario_defs)
  show ?thesis
    using get_dashboard_degrades [OF u5] get_dashboard_degrades [OF u6] u5 u6 found
    by (simp add: session_user_def)
qed

section \<open>Report card reads\<close>




end
